theory Spec2Isabelle
  imports Complex_Main "HOL-Library.Char_ord" "HOL-Library.List_Lexorder" "HOL-Library.Multiset"
    "HOL-Library.Sublist"
begin

text \<open>
  The aggregation and normalization engine of the betting-markets plugin: the conversions and
  list utilities of \<^verbatim>\<open>utils.ts\<close>, the two normalizers that turn a platform's records into the
  unified schema, and the aggregator's \<^verbatim>\<open>searchAll\<close>. Network access, sessions and the command
  line are outside the model; what a client's search settles with is an input.
\<close>

section \<open>Numbers and built-ins of the host language\<close>

text \<open>
  A JavaScript \<^verbatim>\<open>number\<close> is modelled as an exact rational: arithmetic does not round,
  and \<^verbatim>\<open>NaN\<close> and the infinities are not represented. A value that may be
  \<^verbatim>\<open>undefined\<close> is an \<open>option\<close>. The truthiness tests of the source
  (\<^verbatim>\<open>if (x)\<close>, \<^verbatim>\<open>x || d\<close>, \<^verbatim>\<open>!x\<close>) are written out: a number is falsy when it is
  \<open>0\<close>, a string when it is empty, \<^verbatim>\<open>undefined\<close> always.
\<close>

type_synonym number = rat

text \<open>\<^verbatim>\<open>Math.round\<close>: the nearest integer, a tie going up.\<close>

definition Math_round :: "number \<Rightarrow> number" where
  "Math_round x = of_int \<lfloor>x + 1 / 2\<rfloor>"

text \<open>\<^verbatim>\<open>a || d\<close> for an optional number \<open>a\<close> and for an optional or empty string.\<close>

definition num_or :: "number option \<Rightarrow> number \<Rightarrow> number" where
  "num_or a d = (case a of None \<Rightarrow> d | Some x \<Rightarrow> if x = 0 then d else x)"

definition str_or :: "string option \<Rightarrow> string \<Rightarrow> string" where
  "str_or a d = (case a of None \<Rightarrow> d | Some s \<Rightarrow> if s = [] then d else s)"

text \<open>
  \<^verbatim>\<open>a.localeCompare(b)\<close> is only ever applied to the two platform tags, lower-case ASCII
  words, on which every locale orders by code unit.
\<close>

definition localeCompare :: "string \<Rightarrow> string \<Rightarrow> number" where
  "localeCompare a b = (if a < b then - 1 else if a = b then 0 else 1)"

text \<open>
  \<^verbatim>\<open>Array.prototype.sort(cmp)\<close> is stable (ECMAScript 2019; the package asks for Node 18).
  With a comparator that is a consistent ordering, a stable sort has one possible result;
  it is computed here by insertion from the right, an element going in front of the first
  one it does not compare greater than.
\<close>

fun js_insert :: "('a \<Rightarrow> 'a \<Rightarrow> number) \<Rightarrow> 'a \<Rightarrow> 'a list \<Rightarrow> 'a list" where
  "js_insert cmp x [] = [x]"
| "js_insert cmp x (y # ys) = (if cmp x y \<le> 0 then x # y # ys else y # js_insert cmp x ys)"

definition js_sort :: "('a \<Rightarrow> 'a \<Rightarrow> number) \<Rightarrow> 'a list \<Rightarrow> 'a list" where
  "js_sort cmp xs = foldr (js_insert cmp) xs []"

section \<open>The unified schema (types.ts)\<close>

text \<open>
  Record fields share one name space in a theory, so the fields \<^verbatim>\<open>id\<close> and \<^verbatim>\<open>odds\<close> of
  \<^verbatim>\<open>UnifiedMarket\<close> are \<open>market_id\<close> and \<open>market_odds\<close> here, and the fields of the
  platform records below carry a prefix naming their record.
\<close>

datatype Platform = Polymarket | Betfair

fun platform_name :: "Platform \<Rightarrow> string" where
  "platform_name Polymarket = ''polymarket''"
| "platform_name Betfair = ''betfair''"

datatype MarketStatus = StatusOpen | StatusClosed | StatusSettled | StatusUnknown

record Outcome =
  name :: string
  odds :: number
  backOdds :: "number option"
  layOdds :: "number option"
  spread :: "number option"
  backSize :: "number option"
  laySize :: "number option"
  thinLiquidity :: "bool option"
  backOnly :: "bool option"

record UnifiedMarket =
  platform :: Platform
  market_id :: string
  eventId :: "string option"
  url :: string
  question :: string
  outcomes :: "Outcome list option"
  market_odds :: number
  volume :: number
  liquidity :: "number option"
  status :: MarketStatus
  endDate :: "string option"
  lastUpdated :: string

datatype SortKey = ByVolume | ByOdds | ByPlatform


section \<open>Conversions, sorting and filtering (utils.ts)\<close>

definition polymarketOddsToPercent :: "number \<Rightarrow> number" where
  "polymarketOddsToPercent price = Math_round (price * 100 * 100) / 100"

definition betfairOddsToPercent :: "number \<Rightarrow> number" where
  "betfairOddsToPercent decimalOdds =
     (if decimalOdds \<le> 1 then 100 else Math_round ((1 / decimalOdds) * 100 * 100) / 100)"

definition gbpToUsd :: "number \<Rightarrow> number \<Rightarrow> number" where
  "gbpToUsd gbp rate = Math_round (gbp * rate * 100) / 100"

definition usdcToUsd :: "number \<Rightarrow> number" where
  "usdcToUsd usdc = usdc"

definition sortMarkets :: "UnifiedMarket list \<Rightarrow> SortKey \<Rightarrow> UnifiedMarket list" where
  "sortMarkets markets sortBy =
     js_sort (\<lambda>a b. case sortBy of
                 ByVolume \<Rightarrow> volume b - volume a
               | ByOdds \<Rightarrow> market_odds b - market_odds a
               | ByPlatform \<Rightarrow> localeCompare (platform_name (platform a)) (platform_name (platform b)))
       markets"

definition filterByMinVolume :: "UnifiedMarket list \<Rightarrow> number \<Rightarrow> UnifiedMarket list" where
  "filterByMinVolume markets minVolume = filter (\<lambda>m. volume m \<ge> minVolume) markets"

text \<open>
  What the specification means by a value rounded to two decimal places: \<open>r\<close> is the multiple
  of \<open>1/100\<close> nearest to \<open>x\<close>, the upper one when \<open>x\<close> lies midway between two.
\<close>

definition rounded_2dp :: "number \<Rightarrow> number \<Rightarrow> bool" where
  "rounded_2dp x r = (r * 100 = of_int \<lfloor>r * 100\<rfloor> \<and> x - 1 / 200 < r \<and> r \<le> x + 1 / 200)"

section \<open>The exchange client's normalizer (betfair-client.ts)\<close>

record BetfairPriceSize =
  ps_price :: number
  ps_size :: number

record BetfairRunnerEx =
  availableToBack :: "BetfairPriceSize list option"
  availableToLay :: "BetfairPriceSize list option"
  tradedVolume :: "BetfairPriceSize list option"

record BetfairRunnerBook =
  rb_selectionId :: int
  rb_status :: string
  rb_lastPriceTraded :: "number option"
  rb_totalMatched :: "number option"
  rb_ex :: "BetfairRunnerEx option"

record BetfairMarketBook =
  book_marketId :: string
  book_status :: string
  book_totalMatched :: number
  book_totalAvailable :: number
  book_runners :: "BetfairRunnerBook list"

record BetfairRunner =
  run_selectionId :: int
  run_runnerName :: string
  run_handicap :: "number option"
  run_sortPriority :: "number option"

record BetfairRef =
  ref_id :: string
  ref_name :: string

record BetfairMarketCatalogue =
  cat_marketId :: string
  cat_marketName :: string
  cat_marketStartTime :: "string option"
  cat_totalMatched :: "number option"
  cat_runners :: "BetfairRunner list option"
  cat_event :: "BetfairRef option"
  cat_eventType :: "BetfairRef option"
  cat_competition :: "BetfairRef option"

text \<open>The decimal text of an integer, as a template literal prints a selection id.\<close>

fun digits_of :: "nat \<Rightarrow> string" where
  "digits_of n =
     (if n < 10 then [''0123456789'' ! n] else digits_of (n div 10) @ [''0123456789'' ! (n mod 10)])"

definition Number_toString :: "int \<Rightarrow> string" where
  "Number_toString i = (if i < 0 then ''-'' @ digits_of (nat (- i)) else digits_of (nat i))"

definition MIN_OFFER_SIZE :: number where
  "MIN_OFFER_SIZE = 2"

definition MIN_LAY_PERCENT :: number where
  "MIN_LAY_PERCENT = 2"

text \<open>\<^verbatim>\<open>runner.ex?.availableToBack?.[0]\<close> and its lay twin.\<close>

definition first_entry :: "BetfairPriceSize list option \<Rightarrow> BetfairPriceSize option" where
  "first_entry xs = (case xs of None \<Rightarrow> None | Some [] \<Rightarrow> None | Some (e # _) \<Rightarrow> Some e)"

definition backEntry :: "BetfairRunnerBook \<Rightarrow> BetfairPriceSize option" where
  "backEntry runner = (case rb_ex runner of None \<Rightarrow> None | Some ex \<Rightarrow> first_entry (availableToBack ex))"

definition layEntry :: "BetfairRunnerBook \<Rightarrow> BetfairPriceSize option" where
  "layEntry runner = (case rb_ex runner of None \<Rightarrow> None | Some ex \<Rightarrow> first_entry (availableToLay ex))"

definition backPrice :: "BetfairRunnerBook \<Rightarrow> number option" where
  "backPrice runner =
     (case backEntry runner of
        None \<Rightarrow> None
      | Some e \<Rightarrow> if ps_size e \<ge> MIN_OFFER_SIZE then Some (ps_price e) else None)"

definition rawLayPrice :: "BetfairRunnerBook \<Rightarrow> number option" where
  "rawLayPrice runner =
     (case layEntry runner of
        None \<Rightarrow> None
      | Some e \<Rightarrow> if ps_size e \<ge> MIN_OFFER_SIZE then Some (ps_price e) else None)"

definition layPrice :: "BetfairRunnerBook \<Rightarrow> number option" where
  "layPrice runner =
     (case rawLayPrice runner of
        None \<Rightarrow> None
      | Some p \<Rightarrow> if p \<noteq> 0 \<and> betfairOddsToPercent p \<ge> MIN_LAY_PERCENT then Some p else None)"

text \<open>
  The body of the loop over \<^verbatim>\<open>book.runners\<close>: the outcome pushed for one runner.
  \<^verbatim>\<open>if (backPrice)\<close> and \<^verbatim>\<open>if (layPrice)\<close> are truthiness tests, so a price of \<open>0\<close> gives no
  implied probability; \<^verbatim>\<open>!laySize\<close> holds for an absent size and for a size of \<open>0\<close>.
\<close>

definition runnerOutcome :: "BetfairMarketCatalogue \<Rightarrow> BetfairRunnerBook \<Rightarrow> Outcome" where
  "runnerOutcome catalogue runner =
     (let bSize = map_option ps_size (backEntry runner);
          lSize = map_option ps_size (layEntry runner);
          thin = ((case bSize of None \<Rightarrow> False | Some s \<Rightarrow> s < MIN_OFFER_SIZE) \<and>
                  (case lSize of None \<Rightarrow> True | Some s \<Rightarrow> s = 0));
          bOdds = (case backPrice runner of
                     None \<Rightarrow> None
                   | Some p \<Rightarrow> if p \<noteq> 0 then Some (betfairOddsToPercent p) else None);
          lOdds = (case layPrice runner of
                     None \<Rightarrow> None
                   | Some p \<Rightarrow> if p \<noteq> 0 then Some (betfairOddsToPercent p) else None);
          bOnly = (bOdds \<noteq> None \<and> lOdds = None);
          runnerInfo = (case cat_runners catalogue of
                          None \<Rightarrow> None
                        | Some rs \<Rightarrow> find (\<lambda>r. run_selectionId r = rb_selectionId runner) rs)
      in \<lparr> name = str_or (map_option run_runnerName runnerInfo)
                    (''Selection '' @ Number_toString (rb_selectionId runner)),
           odds = (case (bOdds, lOdds) of
                     (Some b, Some l) \<Rightarrow> Math_round (((b + l) / 2) * 100) / 100
                   | _ \<Rightarrow> 0),
           backOdds = bOdds,
           layOdds = lOdds,
           spread = (case (bOdds, lOdds) of
                       (Some b, Some l) \<Rightarrow> Some (Math_round (\<bar>b - l\<bar> * 100) / 100)
                     | _ \<Rightarrow> None),
           backSize = bSize,
           laySize = lSize,
           thinLiquidity = Some thin,
           backOnly = Some bOnly \<rparr>)"

text \<open>
  \<^verbatim>\<open>normalizeMarket\<close>. The conversion rate is a field of the client and the time stamp comes
  from the clock; both are arguments here. When the book has runners the outcomes are
  sorted by \<^verbatim>\<open>(a, b) => b.odds - a.odds\<close> and \<^verbatim>\<open>outcomes[0]?.odds || 0\<close> is the market's odds.
\<close>

definition normalizeMarket ::
  "number \<Rightarrow> string \<Rightarrow> BetfairMarketCatalogue \<Rightarrow> BetfairMarketBook option \<Rightarrow> UnifiedMarket" where
  "normalizeMarket gbpToUsdRate now catalogue book =
     (let eventName = (case cat_event catalogue of None \<Rightarrow> [] | Some e \<Rightarrow> ref_name e);
          marketName = cat_marketName catalogue;
          sorted_outcomes =
            (case book of
               None \<Rightarrow> None
             | Some b \<Rightarrow>
                 if length (book_runners b) > 0
                 then Some (js_sort (\<lambda>a b. odds b - odds a)
                              (map (runnerOutcome catalogue) (book_runners b)))
                 else None);
          primaryOdds = (case sorted_outcomes of
                           None \<Rightarrow> 0
                         | Some [] \<Rightarrow> 0
                         | Some (fav # _) \<Rightarrow> num_or (Some (odds fav)) 0);
          volumeGBP = num_or (map_option book_totalMatched book) (num_or (cat_totalMatched catalogue) 0);
          liquidityGBP = num_or (map_option book_totalAvailable book) 0;
          bookStatus = map_option book_status book
      in \<lparr> platform = Betfair,
           market_id = cat_marketId catalogue,
           eventId = map_option ref_id (cat_event catalogue),
           url = ''https://www.betfair.com/exchange/plus/market/'' @ cat_marketId catalogue,
           question = (if eventName \<noteq> [] then eventName @ '' - '' @ marketName else marketName),
           outcomes = sorted_outcomes,
           market_odds = primaryOdds,
           volume = gbpToUsd volumeGBP gbpToUsdRate,
           liquidity = Some (gbpToUsd liquidityGBP gbpToUsdRate),
           status = (if bookStatus = Some ''OPEN'' then StatusOpen
                     else if bookStatus = Some ''CLOSED'' then StatusClosed
                     else if bookStatus = Some ''SUSPENDED'' then StatusClosed
                     else StatusUnknown),
           endDate = cat_marketStartTime catalogue,
           lastUpdated = now \<rparr>)"

section \<open>The share-price client's normalizer (polymarket-client.ts)\<close>

text \<open>
  \<^verbatim>\<open>outcomes\<close> and \<^verbatim>\<open>outcomePrices\<close> are declared \<^verbatim>\<open>string | string[]\<close>: a native array or its
  JSON text. The source also provides for a missing or empty field
  (\<^verbatim>\<open>market.outcomes || '[]'\<close>), so the field is optional here.
\<close>

datatype encoded = Native "string list" | Serialized string

text \<open>An element of the decoded price array, declared \<^verbatim>\<open>string | number\<close>.\<close>

datatype price_value = PriceString string | PriceNumber number

record PolymarketSearchMarket =
  pm_id :: string
  pm_question :: string
  pm_conditionId :: string
  pm_slug :: string
  pm_endDate :: string
  pm_liquidity :: string
  pm_volume :: string
  pm_outcomePrices :: "encoded option"
  pm_outcomes :: "encoded option"
  pm_active :: bool
  pm_closed :: bool
  pm_acceptingOrders :: bool

record PolymarketSearchEvent =
  ev_id :: string
  ev_ticker :: string
  ev_slug :: string
  ev_title :: string
  ev_description :: "string option"
  ev_startDate :: "string option"
  ev_endDate :: string
  ev_image :: "string option"
  ev_active :: bool
  ev_closed :: bool
  ev_archived :: bool
  ev_liquidity :: number
  ev_volume :: number
  ev_volume24hr :: "number option"
  ev_enableOrderBook :: "bool option"
  ev_markets :: "PolymarketSearchMarket list"

text \<open>
  The built-ins the normalizer calls are arguments of the model. \<^verbatim>\<open>JSON.parse\<close> is read at
  the two types the source declares for its results, \<^verbatim>\<open>string[]\<close> and
  \<^verbatim>\<open>(string | number)[]\<close>, with \<open>None\<close> for a thrown \<^verbatim>\<open>SyntaxError\<close>; a document that
  decodes to anything else than such an array is outside the model. \<^verbatim>\<open>parseFloat\<close> returns
  \<open>None\<close> for \<^verbatim>\<open>NaN\<close>.
\<close>

record host =
  JSON_parse_names :: "string \<Rightarrow> string list option"
  JSON_parse_prices :: "string \<Rightarrow> price_value list option"
  parseFloat :: "string \<Rightarrow> number option"

text \<open>
  \<^verbatim>\<open>Array.isArray(f) ? f : JSON.parse(f || '[]')\<close>; \<^verbatim>\<open>JSON.parse('[]')\<close> is the empty array.
\<close>

definition decode_names :: "host \<Rightarrow> encoded option \<Rightarrow> string list option" where
  "decode_names h f =
     (case f of
        None \<Rightarrow> Some []
      | Some (Native xs) \<Rightarrow> Some xs
      | Some (Serialized s) \<Rightarrow> if s = [] then Some [] else JSON_parse_names h s)"

definition decode_prices :: "host \<Rightarrow> encoded option \<Rightarrow> price_value list option" where
  "decode_prices h f =
     (case f of
        None \<Rightarrow> Some []
      | Some (Native xs) \<Rightarrow> Some (map PriceString xs)
      | Some (Serialized s) \<Rightarrow> if s = [] then Some [] else JSON_parse_prices h s)"

text \<open>
  \<^verbatim>\<open>parseFloat(String(outcomePrices[i])) || 0\<close>: a number prints and parses back to itself, a
  string is parsed, and an index past the end gives \<^verbatim>\<open>"undefined"\<close>, which parses to
  \<^verbatim>\<open>NaN\<close>.
\<close>

definition price_at :: "host \<Rightarrow> price_value list \<Rightarrow> nat \<Rightarrow> number" where
  "price_at h outcomePrices i =
     (if i < length outcomePrices
      then (case outcomePrices ! i of
              PriceNumber n \<Rightarrow> n
            | PriceString s \<Rightarrow> num_or (parseFloat h s) 0)
      else 0)"

definition plain_outcome :: "string \<Rightarrow> number \<Rightarrow> Outcome" where
  "plain_outcome n p =
     \<lparr> name = n, odds = p, backOdds = None, layOdds = None, spread = None, backSize = None,
       laySize = None, thinLiquidity = None, backOnly = None \<rparr>"

text \<open>
  The \<^verbatim>\<open>try\<close> block of \<^verbatim>\<open>normalizeMarketWithEvent\<close>: the outcome list and the primary odds.
  A throwing \<^verbatim>\<open>JSON.parse\<close> leaves both at their initial values, \<^verbatim>\<open>undefined\<close> and \<open>50\<close>.
\<close>

definition parse_outcomes :: "host \<Rightarrow> PolymarketSearchMarket \<Rightarrow> Outcome list option \<times> number" where
  "parse_outcomes h market =
     (case decode_names h (pm_outcomes market) of
        None \<Rightarrow> (None, 50)
      | Some outcomeNames \<Rightarrow>
          (case decode_prices h (pm_outcomePrices market) of
             None \<Rightarrow> (None, 50)
           | Some outcomePrices \<Rightarrow>
               if length outcomeNames > 0 \<and> length outcomePrices > 0
               then (let outs = map (\<lambda>(n, i). plain_outcome n
                                        (polymarketOddsToPercent (price_at h outcomePrices i)))
                                  (zip outcomeNames [0 ..< length outcomeNames])
                     in (Some outs,
                         (case outs of [] \<Rightarrow> 50 | first # _ \<Rightarrow> num_or (Some (odds first)) 50)))
               else (None, 50)))"

definition normalizeMarketWithEvent ::
  "host \<Rightarrow> string \<Rightarrow> PolymarketSearchMarket \<Rightarrow> PolymarketSearchEvent \<Rightarrow> UnifiedMarket" where
  "normalizeMarketWithEvent h now market event =
     (let parsed = parse_outcomes h market;
          vol = num_or (Some (ev_volume event)) (num_or (parseFloat h (pm_volume market)) 0);
          liq = num_or (Some (ev_liquidity event)) (num_or (parseFloat h (pm_liquidity market)) 0)
      in \<lparr> platform = Polymarket,
           market_id = pm_id market,
           eventId = Some (ev_id event),
           url = ''https://polymarket.com/event/'' @ ev_slug event,
           question = str_or (Some (ev_title event)) (pm_question market),
           outcomes = fst parsed,
           market_odds = snd parsed,
           volume = usdcToUsd vol,
           liquidity = Some (usdcToUsd liq),
           status = (if pm_closed market then StatusClosed
                     else if pm_active market \<and> pm_acceptingOrders market then StatusOpen
                     else StatusUnknown),
           endDate = Some (str_or (Some (pm_endDate market)) (ev_endDate event)),
           lastUpdated = now \<rparr>)"

section \<open>The aggregator (aggregator.ts)\<close>

datatype StatusTag = StSuccess | StError | StDisabled

record PlatformStatus =
  st_status :: StatusTag
  st_count :: "nat option"
  st_error :: "string option"

record ResultMeta =
  meta_query :: string
  meta_timestamp :: string
  meta_platforms :: "Platform \<Rightarrow> PlatformStatus"
  meta_totalResults :: nat
  meta_warnings :: "string list"

record AggregatedResult =
  markets :: "UnifiedMarket list"
  meta :: ResultMeta












section \<open>Vocabulary of the properties and sample inputs\<close>



definition sample_market :: "Platform \<Rightarrow> number \<Rightarrow> number \<Rightarrow> UnifiedMarket" where
  "sample_market p od v =
     \<lparr> platform = p, market_id = [], eventId = None, url = [], question = [], outcomes = None,
       market_odds = od, volume = v, liquidity = None, status = StatusUnknown, endDate = None,
       lastUpdated = [] \<rparr>"

definition three_markets :: "UnifiedMarket list" where
  "three_markets =
     [sample_market Polymarket 10 5, sample_market Polymarket 30 700, sample_market Polymarket 20 60]"


definition quote :: "number \<Rightarrow> number \<Rightarrow> BetfairPriceSize" where
  "quote p s = \<lparr> ps_price = p, ps_size = s \<rparr>"

text \<open>A runner with at most one back and one lay offer.\<close>

definition sample_runner ::
  "int \<Rightarrow> BetfairPriceSize option \<Rightarrow> BetfairPriceSize option \<Rightarrow> BetfairRunnerBook" where
  "sample_runner i b l =
     \<lparr> rb_selectionId = i, rb_status = ''ACTIVE'', rb_lastPriceTraded = None, rb_totalMatched = None,
       rb_ex = Some \<lparr> availableToBack = map_option (\<lambda>e. [e]) b,
                      availableToLay = map_option (\<lambda>e. [e]) l,
                      tradedVolume = None \<rparr> \<rparr>"

definition sample_catalogue :: BetfairMarketCatalogue where
  "sample_catalogue =
     \<lparr> cat_marketId = ''1.2345'', cat_marketName = ''Winner'', cat_marketStartTime = None,
       cat_totalMatched = None,
       cat_runners = Some [\<lparr> run_selectionId = 7, run_runnerName = ''Alice'',
                              run_handicap = None, run_sortPriority = None \<rparr>],
       cat_event = None, cat_eventType = None, cat_competition = None \<rparr>"

text \<open>
  Two quotes on both sides at decimal prices \<open>5\<close> and \<open>4.166\<close>, that is 20 and 24 percent;
  a back offer alone at price \<open>3\<close>; an under-sized back offer alone.
\<close>

definition two_sided_runner :: BetfairRunnerBook where
  "two_sided_runner = sample_runner 7 (Some (quote 5 10)) (Some (quote (4166 / 1000) 10))"

definition back_only_runner :: BetfairRunnerBook where
  "back_only_runner = sample_runner 8 (Some (quote 3 10)) None"

definition thin_runner :: BetfairRunnerBook where
  "thin_runner = sample_runner 9 (Some (quote 3 1)) None"

definition sample_book :: BetfairMarketBook where
  "sample_book =
     \<lparr> book_marketId = ''1.2345'', book_status = ''OPEN'', book_totalMatched = 1000,
       book_totalAvailable = 50, book_runners = [back_only_runner, two_sided_runner] \<rparr>"

text \<open>
  The built-ins on the few texts the examples use: \<^verbatim>\<open>parseFloat\<close> on four decimal literals,
  \<^verbatim>\<open>JSON.parse\<close> on one array of numbers, a \<^verbatim>\<open>SyntaxError\<close> for any other text.
\<close>

definition sample_host :: host where
  "sample_host =
     \<lparr> JSON_parse_names = (\<lambda>s. None),
       JSON_parse_prices =
         (\<lambda>s. if s = ''[0.22,0.78]'' then Some [PriceNumber (22 / 100), PriceNumber (78 / 100)]
              else None),
       parseFloat =
         (\<lambda>s. if s = ''0'' then Some 0 else if s = ''1'' then Some 1
              else if s = ''0.22'' then Some (22 / 100)
              else if s = ''0.78'' then Some (78 / 100) else None) \<rparr>"

definition sample_pm_market :: "encoded option \<Rightarrow> encoded option \<Rightarrow> PolymarketSearchMarket" where
  "sample_pm_market names prices =
     \<lparr> pm_id = ''512'', pm_question = ''Will it rain?'', pm_conditionId = ''0xab'',
       pm_slug = ''will-it-rain'', pm_endDate = ''2026-12-31'', pm_liquidity = ''0'',
       pm_volume = ''1'', pm_outcomePrices = prices, pm_outcomes = names,
       pm_active = True, pm_closed = False, pm_acceptingOrders = True \<rparr>"

definition sample_event :: PolymarketSearchEvent where
  "sample_event =
     \<lparr> ev_id = ''77'', ev_ticker = ''rain'', ev_slug = ''rain'', ev_title = ''Rain'',
       ev_description = None, ev_startDate = None, ev_endDate = ''2026-12-31'', ev_image = None,
       ev_active = True, ev_closed = False, ev_archived = False, ev_liquidity = 10,
       ev_volume = 1000, ev_volume24hr = None, ev_enableOrderBook = None, ev_markets = [] \<rparr>"

text \<open>An open market quoted at 22 and 78 percent, and a market resolved against its first outcome.\<close>

definition open_pm_market :: PolymarketSearchMarket where
  "open_pm_market =
     sample_pm_market (Some (Native [''Yes'', ''No''])) (Some (Native [''0.22'', ''0.78'']))"

definition resolved_pm_market :: PolymarketSearchMarket where
  "resolved_pm_market =
     sample_pm_market (Some (Native [''Yes'', ''No''])) (Some (Native [''0'', ''1'']))"

section \<open>Rounding and the conversions\<close>

lemma floor_rat_numeral_div [simp]:
  "\<lfloor>(numeral a :: rat) / numeral b\<rfloor> = numeral a div numeral b"
  using floor_divide_of_int_eq [of "numeral a" "numeral b", where ?'a = rat] by simp

lemma floor_rat_one_div [simp]:
  "\<lfloor>(1 :: rat) / numeral b\<rfloor> = 1 div numeral b"
  using floor_divide_of_int_eq [of 1 "numeral b", where ?'a = rat] by simp

text \<open>The source's idiom \<^verbatim>\<open>Math.round(x * 100) / 100\<close> rounds to two decimal places.\<close>

lemma Math_round_2dp: "rounded_2dp x (Math_round (x * 100) / 100)"
proof -
  define k where "k = \<lfloor>x * 100 + 1 / 2\<rfloor>"
  have lo: "of_int k \<le> x * 100 + 1 / 2" and hi: "x * 100 + 1 / 2 < of_int k + 1"
    unfolding k_def by linarith+
  have "rounded_2dp x (of_int k / 100)"
    unfolding rounded_2dp_def using lo hi by (simp add: field_simps)
  then show ?thesis by (simp add: Math_round_def k_def)
qed

text \<open>Only one value is \<open>x\<close> rounded to two decimal places.\<close>

lemma rounded_2dp_unique:
  assumes a: "rounded_2dp x r" and b: "rounded_2dp x r'"
  shows "r = r'"
proof -
  define k where "k = \<lfloor>r * 100\<rfloor>"
  define k' where "k' = \<lfloor>r' * 100\<rfloor>"
  have r: "r * 100 = of_int k" and r': "r' * 100 = of_int k'"
    using a b by (simp_all add: rounded_2dp_def k_def k'_def)
  have "\<bar>r * 100 - r' * 100\<bar> < 1"
    using a b by (simp add: rounded_2dp_def) linarith
  then have "(of_int k :: rat) < of_int (k' + 1)" and "(of_int k' :: rat) < of_int (k + 1)"
    by (simp_all add: r r')
  then have "k < k' + 1" and "k' < k + 1"
    by (simp_all only: of_int_less_iff)
  then have "k = k'" by simp
  then show ?thesis using r r' by simp
qed

text \<open>
  C7. For every decimal price, \<^verbatim>\<open>betfairOddsToPercent\<close> returns \<open>100 / price\<close> rounded to two
  decimal places, except that every price of at most \<open>1\<close> gives exactly \<open>100\<close>; the price
  \<open>4.55\<close> gives \<open>21.98\<close>.
\<close>

theorem betfairOddsToPercent_rounds:
  "(d \<le> 1 \<longrightarrow> betfairOddsToPercent d = 100) \<and>
   (1 < d \<longrightarrow> rounded_2dp (100 / d) (betfairOddsToPercent d)) \<and>
   betfairOddsToPercent (455 / 100) = 2198 / 100"
proof (intro conjI impI)
  show "betfairOddsToPercent (455 / 100) = 2198 / 100"
    by (simp add: betfairOddsToPercent_def Math_round_def)
next
  assume "1 < d"
  then show "rounded_2dp (100 / d) (betfairOddsToPercent d)"
    using Math_round_2dp [of "100 / d"] by (simp add: betfairOddsToPercent_def)
qed (simp add: betfairOddsToPercent_def)

theorem betfairOddsToPercent_rounds_witness:
  "betfairOddsToPercent 1 = 100 \<and> betfairOddsToPercent (1 / 2) = 100 \<and>
   rounded_2dp (100 / (455 / 100)) (betfairOddsToPercent (455 / 100)) \<and>
   betfairOddsToPercent (455 / 100) = 2198 / 100"
proof -
  have "(1::rat) \<le> 1" and "(1 / 2 :: rat) \<le> 1" and "(1::rat) < 455 / 100"
    by simp_all
  then show ?thesis
    using betfairOddsToPercent_rounds [of 1] betfairOddsToPercent_rounds [of "1 / 2"]
      betfairOddsToPercent_rounds [of "455 / 100"]
    by blast
qed

section \<open>Sorting and filtering\<close>

text \<open>
  With the comparators of the source the stable sort is the library's stable insertion
  sort on a key: the negated number for a descending order, the platform tag for the third.
\<close>

lemma js_insert_desc: "js_insert (\<lambda>a b. f b - f a) x ys = insort_key (\<lambda>x. - f x) x ys"
  by (induction ys) auto

lemma js_sort_desc: "js_sort (\<lambda>a b. f b - f a) xs = sort_key (\<lambda>x. - f x) xs"
  by (induction xs) (auto simp: js_sort_def js_insert_desc)

lemma js_insert_locale:
  "js_insert (\<lambda>a b. localeCompare (g a) (g b)) x ys = insort_key g x ys"
  by (induction ys) (auto simp: localeCompare_def)

lemma js_sort_locale: "js_sort (\<lambda>a b. localeCompare (g a) (g b)) xs = sort_key g xs"
  by (induction xs) (auto simp: js_sort_def js_insert_locale)

lemma sorted_desc_sort_key:
  fixes f :: "'a \<Rightarrow> number"
  shows "sorted_wrt (\<lambda>a b. f b \<le> f a) (sort_key (\<lambda>x. - f x) xs)"
proof -
  have "sorted (map (\<lambda>x. - f x) (sort_key (\<lambda>x. - f x) xs))"
    by (rule sorted_sort_key)
  then show ?thesis by (simp add: sorted_map)
qed

lemma sortMarkets_volume: "sortMarkets ms ByVolume = sort_key (\<lambda>m. - volume m) ms"
  by (simp add: sortMarkets_def js_sort_desc)

lemma sortMarkets_odds: "sortMarkets ms ByOdds = sort_key (\<lambda>m. - market_odds m) ms"
  by (simp add: sortMarkets_def js_sort_desc)

lemma sortMarkets_platform:
  "sortMarkets ms ByPlatform = sort_key (\<lambda>m. platform_name (platform m)) ms"
  by (simp add: sortMarkets_def js_sort_locale)

lemma sortMarkets_twice: "sortMarkets (sortMarkets ms k) k = sortMarkets ms k"
  by (cases k)
     (simp_all add: sortMarkets_volume sortMarkets_odds sortMarkets_platform sort_key_id_if_sorted)

lemma mset_sortMarkets: "mset (sortMarkets ms k) = mset ms"
  by (cases k) (simp_all add: sortMarkets_volume sortMarkets_odds sortMarkets_platform)


text \<open>
  C8. For every list of markets, \<^verbatim>\<open>sortMarkets\<close> returns a rearrangement of the list that is
  sorted descending by \<open>volume\<close> for the key volume, descending by \<open>odds\<close> for the key odds and
  ascending lexicographically by the platform tag for the key platform; sorting twice with
  one key gives what sorting once gives.
\<close>

theorem sortMarkets_sorted_idempotent:
  "sorted_wrt (\<lambda>a b. volume b \<le> volume a) (sortMarkets ms ByVolume) \<and>
   sorted_wrt (\<lambda>a b. market_odds b \<le> market_odds a) (sortMarkets ms ByOdds) \<and>
   sorted_wrt (\<lambda>a b. platform_name (platform a) \<le> platform_name (platform b))
     (sortMarkets ms ByPlatform) \<and>
   mset (sortMarkets ms k) = mset ms \<and>
   sortMarkets (sortMarkets ms k) k = sortMarkets ms k"
proof (intro conjI)
  show "sorted_wrt (\<lambda>a b. volume b \<le> volume a) (sortMarkets ms ByVolume)"
    unfolding sortMarkets_volume by (rule sorted_desc_sort_key)
  show "sorted_wrt (\<lambda>a b. market_odds b \<le> market_odds a) (sortMarkets ms ByOdds)"
    unfolding sortMarkets_odds by (rule sorted_desc_sort_key)
  have "sorted (map (\<lambda>m. platform_name (platform m)) (sortMarkets ms ByPlatform))"
    unfolding sortMarkets_platform by (rule sorted_sort_key)
  then show "sorted_wrt (\<lambda>a b. platform_name (platform a) \<le> platform_name (platform b))
               (sortMarkets ms ByPlatform)"
    by (simp add: sorted_map)
qed (simp_all add: mset_sortMarkets sortMarkets_twice)

lemma sortMarkets_three_markets:
  "sortMarkets three_markets ByVolume =
     [sample_market Polymarket 30 700, sample_market Polymarket 20 60, sample_market Polymarket 10 5]"
  by (simp add: sortMarkets_def js_sort_def three_markets_def sample_market_def)

theorem sortMarkets_sorted_idempotent_witness:
  "sortMarkets three_markets ByVolume =
     [sample_market Polymarket 30 700, sample_market Polymarket 20 60, sample_market Polymarket 10 5] \<and>
   sortMarkets [sample_market Polymarket 30 700, sample_market Polymarket 20 60,
                sample_market Polymarket 10 5] ByVolume =
     [sample_market Polymarket 30 700, sample_market Polymarket 20 60, sample_market Polymarket 10 5]"
  using sortMarkets_sorted_idempotent [of three_markets ByVolume]
  by (simp add: sortMarkets_three_markets)

text \<open>
  C9, as amended. For every list of markets and every threshold \<open>v\<close>,
  \<^verbatim>\<open>filterByMinVolume(list, v)\<close> is the sublist of the markets whose \<open>volume\<close> is at least \<open>v\<close>,
  in their order and with their multiplicity; \<^verbatim>\<open>filterByMinVolume(list, 0)\<close> returns the list
  unchanged exactly when no market of the list has a negative volume.
\<close>

theorem filterByMinVolume_exact:
  "subseq (filterByMinVolume ms v) ms \<and>
   mset (filterByMinVolume ms v) = filter_mset (\<lambda>m. v \<le> volume m) (mset ms) \<and>
   (filterByMinVolume ms 0 = ms \<longleftrightarrow> (\<forall>m \<in> set ms. 0 \<le> volume m))"
proof (intro conjI)
  show "subseq (filterByMinVolume ms v) ms"
    unfolding filterByMinVolume_def by (rule subseq_filter_left)
  show "mset (filterByMinVolume ms v) = filter_mset (\<lambda>m. v \<le> volume m) (mset ms)"
    unfolding filterByMinVolume_def by (rule mset_filter)
  show "filterByMinVolume ms 0 = ms \<longleftrightarrow> (\<forall>m \<in> set ms. 0 \<le> volume m)"
    unfolding filterByMinVolume_def by (rule filter_id_conv)
qed

theorem filterByMinVolume_exact_witness:
  "filterByMinVolume three_markets 60 =
     [sample_market Polymarket 30 700, sample_market Polymarket 20 60] \<and>
   filterByMinVolume three_markets 0 = three_markets"
proof -
  have "\<forall>m \<in> set three_markets. 0 \<le> volume m"
    by (simp add: three_markets_def sample_market_def)
  then have "filterByMinVolume three_markets 0 = three_markets"
    using filterByMinVolume_exact [of three_markets 0] by blast
  then show ?thesis
    by (simp add: filterByMinVolume_def three_markets_def sample_market_def)
qed

text \<open>
  The claim as it was stated fails on a market with a negative volume: the threshold \<open>0\<close>
  drops it.
\<close>

theorem filterByMinVolume_zero_counterexample:
  "filterByMinVolume [sample_market Polymarket 50 (- 1)] 0 \<noteq> [sample_market Polymarket 50 (- 1)]"
  by (simp add: filterByMinVolume_def sample_market_def)

section \<open>Outcomes of the exchange normalizer\<close>

text \<open>The fields of the outcome of one runner, read off the loop body.\<close>

lemma backOdds_runnerOutcome:
  "backOdds (runnerOutcome c r) =
     (case backPrice r of
        None \<Rightarrow> None
      | Some p \<Rightarrow> if p \<noteq> 0 then Some (betfairOddsToPercent p) else None)"
  by (simp add: runnerOutcome_def Let_def)

lemma layOdds_runnerOutcome:
  "layOdds (runnerOutcome c r) = map_option betfairOddsToPercent (layPrice r)"
  by (simp add: runnerOutcome_def Let_def layPrice_def split: option.splits)

lemma odds_runnerOutcome:
  "odds (runnerOutcome c r) =
     (case (backOdds (runnerOutcome c r), layOdds (runnerOutcome c r)) of
        (Some b, Some l) \<Rightarrow> Math_round (((b + l) / 2) * 100) / 100
      | _ \<Rightarrow> 0)"
  by (simp add: runnerOutcome_def Let_def)


lemma backOnly_runnerOutcome:
  "backOnly (runnerOutcome c r) =
     Some (backOdds (runnerOutcome c r) \<noteq> None \<and> layOdds (runnerOutcome c r) = None)"
  by (simp add: runnerOutcome_def Let_def)

lemma thinLiquidity_runnerOutcome:
  "thinLiquidity (runnerOutcome c r) =
     Some ((case backEntry r of None \<Rightarrow> False | Some e \<Rightarrow> ps_size e < MIN_OFFER_SIZE) \<and>
           (case layEntry r of None \<Rightarrow> True | Some e \<Rightarrow> ps_size e = 0))"
  by (simp add: runnerOutcome_def Let_def split: option.splits)



text \<open>Every outcome of a normalized market is the outcome of one runner of the book.\<close>

lemma outcomes_normalizeMarket:
  assumes "outcomes (normalizeMarket rate now c book) = Some os"
  shows "\<exists>b. book = Some b \<and> book_runners b \<noteq> [] \<and>
             os = sort_key (\<lambda>x. - odds x) (map (runnerOutcome c) (book_runners b))"
  using assms
  by (auto simp: normalizeMarket_def Let_def js_sort_desc split: option.splits if_splits)

lemma outcome_of_runner:
  assumes "outcomes (normalizeMarket rate now c book) = Some os" and "x \<in> set os"
  shows "\<exists>r. x = runnerOutcome c r"
proof -
  from outcomes_normalizeMarket [OF assms(1)] obtain b :: BetfairMarketBook where
    "os = sort_key (\<lambda>x. - odds x) (map (runnerOutcome c) (book_runners b))"
    by blast
  then have "x \<in> runnerOutcome c ` set (book_runners b)"
    using assms(2) by simp
  then show ?thesis by blast
qed

lemma sample_two_sided:
  "backOdds (runnerOutcome sample_catalogue two_sided_runner) = Some 20"
  "layOdds (runnerOutcome sample_catalogue two_sided_runner) = Some 24"
  by (simp_all add: backOdds_runnerOutcome layOdds_runnerOutcome backPrice_def layPrice_def
      rawLayPrice_def backEntry_def layEntry_def first_entry_def two_sided_runner_def
      sample_runner_def quote_def MIN_OFFER_SIZE_def MIN_LAY_PERCENT_def
      betfairOddsToPercent_def Math_round_def)

lemma sample_back_only:
  "backPrice back_only_runner = Some 3"
  "layPrice back_only_runner = None"
  "backOdds (runnerOutcome sample_catalogue back_only_runner) = Some (3333 / 100)"
  "layOdds (runnerOutcome sample_catalogue back_only_runner) = None"
  by (simp_all add: backOdds_runnerOutcome layOdds_runnerOutcome backPrice_def layPrice_def
      rawLayPrice_def backEntry_def layEntry_def first_entry_def back_only_runner_def
      sample_runner_def quote_def MIN_OFFER_SIZE_def betfairOddsToPercent_def Math_round_def)

lemma sample_thin:
  "backEntry thin_runner = Some (quote 3 1)"
  "layEntry thin_runner = None"
  "ps_size (quote 3 1) < MIN_OFFER_SIZE"
  by (simp_all add: backEntry_def layEntry_def first_entry_def thin_runner_def sample_runner_def
      quote_def MIN_OFFER_SIZE_def)




text \<open>
  C4. For every outcome of the exchange normalizer, of one runner or in a normalized market:
  if \<open>backOnly\<close> is true then \<open>odds\<close> is \<open>0\<close> and \<open>layOdds\<close> is absent. And whenever only the
  back side survives, the outcome carrying a back probability and no lay probability, it has
  \<open>backOnly\<close> true and \<open>odds\<close> \<open>0\<close>; on the input that is a filtered back price \<open>p\<close> that is
  not \<open>0\<close> and no filtered lay price.
\<close>

theorem runnerOutcome_backOnly:
  "(backOnly (runnerOutcome c r) = Some True \<longrightarrow>
      odds (runnerOutcome c r) = 0 \<and> layOdds (runnerOutcome c r) = None) \<and>
   (\<forall>os x. outcomes (normalizeMarket rate now c book) = Some os \<and> x \<in> set os \<and>
        backOnly x = Some True \<longrightarrow> odds x = 0 \<and> layOdds x = None) \<and>
   (backOdds (runnerOutcome c r) \<noteq> None \<and> layOdds (runnerOutcome c r) = None \<longrightarrow>
      backOnly (runnerOutcome c r) = Some True \<and> odds (runnerOutcome c r) = 0) \<and>
   (backPrice r = Some p \<and> p \<noteq> 0 \<and> layPrice r = None \<longrightarrow>
      backOnly (runnerOutcome c r) = Some True \<and> odds (runnerOutcome c r) = 0 \<and>
      backOdds (runnerOutcome c r) = Some (betfairOddsToPercent p))"
proof -
  have one: "backOnly (runnerOutcome c q) = Some True \<longrightarrow>
      odds (runnerOutcome c q) = 0 \<and> layOdds (runnerOutcome c q) = None" for q
    by (auto simp: backOnly_runnerOutcome odds_runnerOutcome split: option.splits)
  have all: "\<forall>os x. outcomes (normalizeMarket rate now c book) = Some os \<and> x \<in> set os \<and>
        backOnly x = Some True \<longrightarrow> odds x = 0 \<and> layOdds x = None"
  proof (intro allI impI)
    fix os x
    assume a: "outcomes (normalizeMarket rate now c book) = Some os \<and> x \<in> set os \<and>
        backOnly x = Some True"
    then obtain q where "x = runnerOutcome c q"
      using outcome_of_runner by blast
    then show "odds x = 0 \<and> layOdds x = None"
      using one [of q] a by simp
  qed
  have only: "backOdds (runnerOutcome c r) \<noteq> None \<and> layOdds (runnerOutcome c r) = None \<longrightarrow>
      backOnly (runnerOutcome c r) = Some True \<and> odds (runnerOutcome c r) = 0"
    by (auto simp: backOnly_runnerOutcome odds_runnerOutcome split: option.splits)
  have input: "backPrice r = Some p \<and> p \<noteq> 0 \<and> layPrice r = None \<longrightarrow>
      backOnly (runnerOutcome c r) = Some True \<and> odds (runnerOutcome c r) = 0 \<and>
      backOdds (runnerOutcome c r) = Some (betfairOddsToPercent p)"
    by (auto simp: backOnly_runnerOutcome odds_runnerOutcome backOdds_runnerOutcome
        layOdds_runnerOutcome)
  show ?thesis using one all only input by blast
qed

theorem runnerOutcome_backOnly_witness:
  "backPrice back_only_runner = Some 3 \<and> layPrice back_only_runner = None \<and>
   backOnly (runnerOutcome sample_catalogue back_only_runner) = Some True \<and>
   odds (runnerOutcome sample_catalogue back_only_runner) = 0 \<and>
   layOdds (runnerOutcome sample_catalogue back_only_runner) = None \<and>
   backOdds (runnerOutcome sample_catalogue back_only_runner) = Some (betfairOddsToPercent 3)"
proof -
  have "(3 :: rat) \<noteq> 0" by simp
  then show ?thesis
    using runnerOutcome_backOnly [of sample_catalogue back_only_runner 1 "[]" None 3]
      sample_back_only(1,2,4)
    by blast
qed

text \<open>
  C5, as amended. For every runner, the outcome has \<open>thinLiquidity\<close> true exactly when a back
  quote exists with a size below the minimum offer size and either no lay quote exists or the
  lay quote has size \<open>0\<close>. It is false for a runner with no back quote, whatever the lay
  quote, and true for an under-sized back quote with no lay quote.
\<close>

theorem runnerOutcome_thinLiquidity:
  "(thinLiquidity (runnerOutcome c r) = Some True \<longleftrightarrow>
      (\<exists>be. backEntry r = Some be \<and> ps_size be < MIN_OFFER_SIZE) \<and>
      (layEntry r = None \<or> (\<exists>le. layEntry r = Some le \<and> ps_size le = 0))) \<and>
   (backEntry r = None \<longrightarrow> thinLiquidity (runnerOutcome c r) = Some False) \<and>
   (\<forall>be. backEntry r = Some be \<and> ps_size be < MIN_OFFER_SIZE \<and> layEntry r = None \<longrightarrow>
      thinLiquidity (runnerOutcome c r) = Some True)"
proof (intro conjI)
  show "thinLiquidity (runnerOutcome c r) = Some True \<longleftrightarrow>
      (\<exists>be. backEntry r = Some be \<and> ps_size be < MIN_OFFER_SIZE) \<and>
      (layEntry r = None \<or> (\<exists>le. layEntry r = Some le \<and> ps_size le = 0))"
  proof (cases "backEntry r")
    case None
    then show ?thesis by (simp add: thinLiquidity_runnerOutcome)
  next
    case (Some be)
    then show ?thesis
      by (cases "layEntry r") (simp_all add: thinLiquidity_runnerOutcome)
  qed
  show "backEntry r = None \<longrightarrow> thinLiquidity (runnerOutcome c r) = Some False"
    by (simp add: thinLiquidity_runnerOutcome)
  show "\<forall>be. backEntry r = Some be \<and> ps_size be < MIN_OFFER_SIZE \<and> layEntry r = None \<longrightarrow>
      thinLiquidity (runnerOutcome c r) = Some True"
    by (simp add: thinLiquidity_runnerOutcome)
qed

theorem runnerOutcome_thinLiquidity_witness:
  "backEntry thin_runner = Some (quote 3 1) \<and> ps_size (quote 3 1) < MIN_OFFER_SIZE \<and>
   layEntry thin_runner = None \<and>
   thinLiquidity (runnerOutcome sample_catalogue thin_runner) = Some True \<and>
   backEntry (sample_runner 9 None (Some (quote 3 1))) = None \<and>
   thinLiquidity (runnerOutcome sample_catalogue (sample_runner 9 None (Some (quote 3 1)))) =
     Some False"
proof -
  have n: "backEntry (sample_runner 9 None (Some (quote 3 1))) = None"
    by (simp add: backEntry_def first_entry_def sample_runner_def)
  show ?thesis
    using runnerOutcome_thinLiquidity [of sample_catalogue thin_runner]
      runnerOutcome_thinLiquidity [of sample_catalogue "sample_runner 9 None (Some (quote 3 1))"]
      sample_thin n
    by blast
qed

text \<open>
  The claim as it was stated fails when a lay quote exists with size \<open>0\<close>: \<^verbatim>\<open>!laySize\<close> holds
  and the flag is set although the runner has a lay quote.
\<close>

theorem runnerOutcome_thinLiquidity_counterexample:
  "layEntry (sample_runner 9 (Some (quote 3 1)) (Some (quote 3 0))) = Some (quote 3 0) \<and>
   thinLiquidity (runnerOutcome sample_catalogue
                    (sample_runner 9 (Some (quote 3 1)) (Some (quote 3 0)))) = Some True"
  by (simp add: thinLiquidity_runnerOutcome backEntry_def layEntry_def first_entry_def
      sample_runner_def quote_def MIN_OFFER_SIZE_def)

text \<open>
  C10. For every outcome of the exchange normalizer, of one runner or in a normalized market:
  if \<open>thinLiquidity\<close> is true then \<open>backOnly\<close> is false and \<open>backOdds\<close> is absent, because a back
  quote below the minimum offer size does not pass the size filter.
\<close>

theorem thinLiquidity_excludes_backOnly:
  "(thinLiquidity (runnerOutcome c r) = Some True \<longrightarrow>
      backOnly (runnerOutcome c r) = Some False \<and> backOdds (runnerOutcome c r) = None \<and>
      backPrice r = None) \<and>
   (\<forall>os x. outcomes (normalizeMarket rate now c book) = Some os \<and> x \<in> set os \<and>
        thinLiquidity x = Some True \<longrightarrow> backOnly x = Some False \<and> backOdds x = None)"
proof -
  have one: "thinLiquidity (runnerOutcome c q) = Some True \<longrightarrow>
      backOnly (runnerOutcome c q) = Some False \<and> backOdds (runnerOutcome c q) = None \<and>
      backPrice q = None" for q
  proof
    assume "thinLiquidity (runnerOutcome c q) = Some True"
    then obtain e where "backEntry q = Some e" and "ps_size e < MIN_OFFER_SIZE"
      by (auto simp: thinLiquidity_runnerOutcome split: option.splits)
    then have "backPrice q = None"
      by (simp add: backPrice_def)
    then show "backOnly (runnerOutcome c q) = Some False \<and> backOdds (runnerOutcome c q) = None \<and>
      backPrice q = None"
      by (simp add: backOnly_runnerOutcome backOdds_runnerOutcome)
  qed
  have "\<forall>os x. outcomes (normalizeMarket rate now c book) = Some os \<and> x \<in> set os \<and>
        thinLiquidity x = Some True \<longrightarrow> backOnly x = Some False \<and> backOdds x = None"
  proof (intro allI impI)
    fix os x
    assume a: "outcomes (normalizeMarket rate now c book) = Some os \<and> x \<in> set os \<and>
        thinLiquidity x = Some True"
    then obtain q where "x = runnerOutcome c q"
      using outcome_of_runner by blast
    then show "backOnly x = Some False \<and> backOdds x = None"
      using one [of q] a by simp
  qed
  then show ?thesis using one by blast
qed

theorem thinLiquidity_excludes_backOnly_witness:
  "thinLiquidity (runnerOutcome sample_catalogue thin_runner) = Some True \<and>
   backOnly (runnerOutcome sample_catalogue thin_runner) = Some False \<and>
   backOdds (runnerOutcome sample_catalogue thin_runner) = None"
proof -
  have "thinLiquidity (runnerOutcome sample_catalogue thin_runner) = Some True"
    by (simp add: thinLiquidity_runnerOutcome sample_thin)
  then show ?thesis
    using thinLiquidity_excludes_backOnly [of sample_catalogue thin_runner 1 "[]" None]
    by blast
qed

section \<open>The scalar odds of a normalized market\<close>

lemma Max_sorted_desc:
  fixes f :: "'a \<Rightarrow> number"
  assumes "sorted_wrt (\<lambda>a b. f b \<le> f a) (x # xs)"
  shows "Max (f ` set (x # xs)) = f x"
proof (rule Max_eqI)
  fix y
  assume "y \<in> f ` set (x # xs)"
  then show "y \<le> f x" using assms by auto
qed simp_all

lemma market_odds_normalizeMarket:
  "outcomes (normalizeMarket rate now c book) = Some (x # xs) \<Longrightarrow>
     market_odds (normalizeMarket rate now c book) = odds x"
  by (auto simp: normalizeMarket_def Let_def num_or_def split: option.splits if_splits)

text \<open>The exchange normalizer: the odds of the market are those of the favourite.\<close>

lemma normalizeMarket_favourite:
  assumes "outcomes (normalizeMarket rate now c book) = Some os" and "os \<noteq> []"
  shows "market_odds (normalizeMarket rate now c book) = Max (odds ` set os) \<and>
         sorted_wrt (\<lambda>a b. odds b \<le> odds a) os"
proof -
  have s: "sorted_wrt (\<lambda>a b. odds b \<le> odds a) os"
    using outcomes_normalizeMarket [OF assms(1)] sorted_desc_sort_key [of odds] by auto
  obtain x xs where os: "os = x # xs"
    using assms(2) by (cases os) auto
  have "market_odds (normalizeMarket rate now c book) = odds x"
    using assms(1) unfolding os by (rule market_odds_normalizeMarket)
  also have "\<dots> = Max (odds ` set os)"
    using s unfolding os by (rule Max_sorted_desc [symmetric])
  finally show ?thesis using s by simp
qed

text \<open>
  The share-price normalizer: when it yields outcomes, both arrays decoded and were not
  empty, the outcomes follow the names in their order, and the odds of the market are
  \<^verbatim>\<open>outcomes[0].odds || 50\<close>.
\<close>

lemma parse_outcomes_Some:
  assumes "fst (parse_outcomes h market) = Some os"
  shows "\<exists>ns ps. decode_names h (pm_outcomes market) = Some ns \<and>
           decode_prices h (pm_outcomePrices market) = Some ps \<and> ns \<noteq> [] \<and> ps \<noteq> [] \<and>
           os = map (\<lambda>(n, i). plain_outcome n (polymarketOddsToPercent (price_at h ps i)))
                  (zip ns [0 ..< length ns]) \<and>
           snd (parse_outcomes h market) = num_or (Some (odds (hd os))) 50"
  using assms
  by (auto simp: parse_outcomes_def Let_def split: option.splits if_splits list.splits)

lemma map_name_outcomes:
  "map name (map (\<lambda>(n, i). plain_outcome n (g i)) (zip ns [0 ..< length ns])) = ns"
  by (simp add: plain_outcome_def split_def comp_def)

lemma normalizeMarketWithEvent_first:
  assumes "outcomes (normalizeMarketWithEvent h now market event) = Some os"
  shows "os \<noteq> [] \<and> decode_names h (pm_outcomes market) = Some (map name os) \<and>
         market_odds (normalizeMarketWithEvent h now market event) = num_or (Some (odds (hd os))) 50"
proof -
  have "fst (parse_outcomes h market) = Some os"
    using assms by (simp add: normalizeMarketWithEvent_def Let_def)
  from parse_outcomes_Some [OF this] obtain ns ps where
    ns: "decode_names h (pm_outcomes market) = Some ns" "ns \<noteq> []" and
    os: "os = map (\<lambda>(n, i). plain_outcome n (polymarketOddsToPercent (price_at h ps i)))
                  (zip ns [0 ..< length ns])" and
    po: "snd (parse_outcomes h market) = num_or (Some (odds (hd os))) 50"
    by blast
  have "map name os = ns"
    unfolding os by (rule map_name_outcomes)
  moreover have "os \<noteq> []"
    using ns(2) os by (cases ns) auto
  moreover have "market_odds (normalizeMarketWithEvent h now market event) =
                 snd (parse_outcomes h market)"
    by (simp add: normalizeMarketWithEvent_def Let_def)
  ultimately show ?thesis using ns po by simp
qed

text \<open>
  When the names and the prices decode to non-empty arrays, the odds of the market are the
  first price as a percentage, unless that percentage is \<open>0\<close>, which reads 50.
\<close>

lemma normalizeMarketWithEvent_parseable:
  assumes "decode_names h (pm_outcomes market) = Some (n # ns)"
    and "decode_prices h (pm_outcomePrices market) = Some (p # ps)"
  shows "market_odds (normalizeMarketWithEvent h now market event) =
           num_or (Some (polymarketOddsToPercent (price_at h (p # ps) 0))) 50"
  using assms
  by (simp add: normalizeMarketWithEvent_def parse_outcomes_def Let_def upt_rec plain_outcome_def)

text \<open>
  When the names or the prices are absent, empty or not JSON, the record is not rejected:
  it has no outcomes and odds 50.
\<close>

lemma decode_absent:
  "decode_names h None = Some []" "decode_names h (Some (Serialized [])) = Some []"
  "decode_prices h None = Some []" "decode_prices h (Some (Serialized [])) = Some []"
  by (simp_all add: decode_names_def decode_prices_def)

lemma normalizeMarketWithEvent_defaults:
  assumes "decode_names h (pm_outcomes market) \<in> {None, Some []} \<or>
           decode_prices h (pm_outcomePrices market) \<in> {None, Some []}"
  shows "outcomes (normalizeMarketWithEvent h now market event) = None \<and>
         market_odds (normalizeMarketWithEvent h now market event) = 50"
  using assms
  by (auto simp: normalizeMarketWithEvent_def parse_outcomes_def Let_def split: option.splits)

lemma sample_open_market:
  "outcomes (normalizeMarketWithEvent sample_host ''t'' open_pm_market sample_event) =
     Some [plain_outcome ''Yes'' 22, plain_outcome ''No'' 78]"
  "market_odds (normalizeMarketWithEvent sample_host ''t'' open_pm_market sample_event) = 22"
  by (simp_all add: normalizeMarketWithEvent_def Let_def parse_outcomes_def decode_names_def
      decode_prices_def open_pm_market_def sample_pm_market_def sample_host_def price_at_def
      num_or_def polymarketOddsToPercent_def Math_round_def upt_rec plain_outcome_def)

text \<open>A price array given as JSON text decodes to the same outcomes as the native array.\<close>

lemma sample_serialized_market:
  "outcomes (normalizeMarketWithEvent sample_host ''t''
      (sample_pm_market (Some (Native [''Yes'', ''No''])) (Some (Serialized ''[0.22,0.78]'')))
      sample_event) =
   outcomes (normalizeMarketWithEvent sample_host ''t'' open_pm_market sample_event)"
  by (simp add: normalizeMarketWithEvent_def Let_def parse_outcomes_def decode_names_def
      decode_prices_def open_pm_market_def sample_pm_market_def sample_host_def price_at_def
      num_or_def upt_rec)

lemma sample_book_outcomes:
  "outcomes (normalizeMarket (127 / 100) ''t'' sample_catalogue (Some sample_book)) =
     Some [runnerOutcome sample_catalogue two_sided_runner,
           runnerOutcome sample_catalogue back_only_runner]"
proof -
  have "odds (runnerOutcome sample_catalogue two_sided_runner) = 22"
    using sample_two_sided by (simp add: odds_runnerOutcome Math_round_def)
  moreover have "odds (runnerOutcome sample_catalogue back_only_runner) = 0"
    using sample_back_only by (simp add: odds_runnerOutcome)
  ultimately show ?thesis
    by (simp add: normalizeMarket_def Let_def sample_book_def js_sort_def)
qed

text \<open>
  C1, as amended. For every market produced by the exchange normalizer
  (\<^verbatim>\<open>normalizeMarket\<close>), if \<open>outcomes\<close> is present and not empty then the odds of the market
  are the maximum of the odds of its outcomes, and the outcomes are sorted descending by
  odds. The share-price normalizer (\<^verbatim>\<open>normalizeMarketWithEvent\<close>) does not sort: its
  outcomes, never empty when present, keep the order of the record's outcome names, and the
  odds of the market are those of the first outcome whenever these are not \<open>0\<close>.
\<close>

theorem normalizers_market_odds:
  "(\<forall>os. outcomes (normalizeMarket rate now c book) = Some os \<and> os \<noteq> [] \<longrightarrow>
      market_odds (normalizeMarket rate now c book) = Max (odds ` set os) \<and>
      sorted_wrt (\<lambda>a b. odds b \<le> odds a) os) \<and>
   (\<forall>os. outcomes (normalizeMarketWithEvent h now market event) = Some os \<longrightarrow>
      os \<noteq> [] \<and> decode_names h (pm_outcomes market) = Some (map name os) \<and>
      (odds (hd os) \<noteq> 0 \<longrightarrow>
         market_odds (normalizeMarketWithEvent h now market event) = odds (hd os)))"
proof (intro conjI allI impI)
  fix os
  assume "outcomes (normalizeMarket rate now c book) = Some os \<and> os \<noteq> []"
  then show "market_odds (normalizeMarket rate now c book) = Max (odds ` set os)"
    and "sorted_wrt (\<lambda>a b. odds b \<le> odds a) os"
    using normalizeMarket_favourite by blast+
next
  fix os
  assume a: "outcomes (normalizeMarketWithEvent h now market event) = Some os"
  show "os \<noteq> []" and "decode_names h (pm_outcomes market) = Some (map name os)"
    using normalizeMarketWithEvent_first [OF a] by blast+
  assume "odds (hd os) \<noteq> 0"
  then show "market_odds (normalizeMarketWithEvent h now market event) = odds (hd os)"
    using normalizeMarketWithEvent_first [OF a] by (simp add: num_or_def)
qed

theorem normalizers_market_odds_witness:
  "outcomes (normalizeMarket (127 / 100) ''t'' sample_catalogue (Some sample_book)) =
     Some [runnerOutcome sample_catalogue two_sided_runner,
           runnerOutcome sample_catalogue back_only_runner] \<and>
   market_odds (normalizeMarket (127 / 100) ''t'' sample_catalogue (Some sample_book)) =
     Max (odds ` set [runnerOutcome sample_catalogue two_sided_runner,
                      runnerOutcome sample_catalogue back_only_runner]) \<and>
   outcomes (normalizeMarketWithEvent sample_host ''t'' open_pm_market sample_event) =
     Some [plain_outcome ''Yes'' 22, plain_outcome ''No'' 78] \<and>
   market_odds (normalizeMarketWithEvent sample_host ''t'' open_pm_market sample_event) = 22"
proof -
  have "[runnerOutcome sample_catalogue two_sided_runner,
         runnerOutcome sample_catalogue back_only_runner] \<noteq> []"
    by simp
  then show ?thesis
    using normalizers_market_odds [of "127 / 100" "''t''" sample_catalogue "Some sample_book"
        sample_host open_pm_market sample_event]
      sample_book_outcomes sample_open_market
    by blast
qed

text \<open>
  The claim as it was stated fails on the share-price normalizer: the outcomes of a market
  quoted 22 and 78 percent stay in the order of the record, and the odds of the market are
  the first, 22, not the maximum, 78.
\<close>

theorem normalizers_market_odds_counterexample:
  "outcomes (normalizeMarketWithEvent sample_host ''t'' open_pm_market sample_event) =
     Some [plain_outcome ''Yes'' 22, plain_outcome ''No'' 78] \<and>
   market_odds (normalizeMarketWithEvent sample_host ''t'' open_pm_market sample_event) = 22 \<and>
   Max (odds ` set [plain_outcome ''Yes'' 22, plain_outcome ''No'' 78]) = 78 \<and>
   \<not> sorted_wrt (\<lambda>a b. odds b \<le> odds a) [plain_outcome ''Yes'' 22, plain_outcome ''No'' 78]"
  by (simp add: sample_open_market) (simp add: plain_outcome_def)

text \<open>
  C6 does not hold of the code. A market resolved against its first outcome has the prices
  \<open>0\<close> and \<open>1\<close>; both parse, the first outcome gets odds \<open>0\<close>, and
  \<^verbatim>\<open>outcomes[0]?.odds || 50\<close> makes the odds of the market 50, where the first price as a
  percentage is \<open>0\<close>.
\<close>

theorem normalizeMarketWithEvent_zero_price:
  "outcomes (normalizeMarketWithEvent sample_host ''t'' resolved_pm_market sample_event) =
     Some [plain_outcome ''Yes'' 0, plain_outcome ''No'' 100] \<and>
   polymarketOddsToPercent 0 = 0 \<and>
   market_odds (normalizeMarketWithEvent sample_host ''t'' resolved_pm_market sample_event) = 50"
  by (simp add: normalizeMarketWithEvent_def Let_def parse_outcomes_def decode_names_def
      decode_prices_def resolved_pm_market_def sample_pm_market_def sample_host_def price_at_def
      num_or_def polymarketOddsToPercent_def Math_round_def upt_rec plain_outcome_def)

section \<open>Aggregation with one failing platform\<close>










end
